theory Spec2Isabelle
  imports Complex_Main "HOL-Library.Sublist"
begin

section \<open>JavaScript values\<close>

text \<open>
  A JavaScript number: a finite value, one of the two infinities, or NaN. Finite doubles
  are read as the real numbers they denote (both zeros are \<open>Fin 0\<close>); negation and the
  test \<open>=== 0\<close> are exact on doubles, so this reading loses nothing for them.
\<close>

datatype number = NaN | Fin real | PosInf | NegInf

text \<open>
  The values of TypeScript's type \<open>any\<close>. A function value is an opaque reference;
  what calling it does is given by the caller of the model (the JavaScript engine).
\<close>

datatype jsval =
    Undefined
  | Null
  | Boolean bool
  | Num number
  | Str string
  | Arr "jsval list"
  | Obj "(string \<times> jsval) list"
  | Fn nat

datatype exn = SyntaxError | ReferenceError | TypeError | RangeError int | Thrown jsval

text \<open>JavaScript's ToBoolean: what \<open>Array.prototype.filter\<close> does with the callback's result.\<close>

fun truthy :: "jsval \<Rightarrow> bool" where
  "truthy Undefined = False"
| "truthy Null = False"
| "truthy (Boolean b) = b"
| "truthy (Num n) = (n \<noteq> NaN \<and> n \<noteq> Fin 0)"
| "truthy (Str s) = (s \<noteq> [])"
| "truthy (Arr xs) = True"
| "truthy (Obj fs) = True"
| "truthy (Fn f) = True"

text \<open>lodash's \<open>isFunction\<close> and \<open>isArray\<close>.\<close>

fun isFunction :: "jsval \<Rightarrow> bool" where
  "isFunction (Fn f) = True"
| "isFunction v = False"

fun isArray :: "jsval \<Rightarrow> bool" where
  "isArray (Arr xs) = True"
| "isArray v = False"

text \<open>Reading \<open>list[i]\<close>: an index past the end of an array gives \<open>undefined\<close>.\<close>

definition at_index :: "jsval list \<Rightarrow> nat \<Rightarrow> jsval" where
  "at_index list i = (if i < length list then list ! i else Undefined)"

text \<open>
  \<open>Array.prototype.filter\<close>: the callback runs on the elements from left to right, an
  element is kept when the callback's result is truthy, and an exception of the callback
  ends the loop.
\<close>

fun array_filter :: "('a \<Rightarrow> exn + jsval) \<Rightarrow> 'a list \<Rightarrow> exn + 'a list" where
  "array_filter cb [] = Inr []"
| "array_filter cb (x # xs) =
     (case cb x of
        Inl e \<Rightarrow> Inl e
      | Inr keep \<Rightarrow>
          (case array_filter cb xs of
             Inl e \<Rightarrow> Inl e
           | Inr ys \<Rightarrow> Inr (if truthy keep then x # ys else ys)))"

section \<open>Snippets and the document\<close>

type_synonym Span = "int \<times> int"

text \<open>
  A snippet (the type is imported from \<open>./primitives\<close>): the formula API reads its \<open>type\<close>
  and its \<open>span\<close>; any other field lives in the record's extension.
\<close>

record Snippet =
  type :: string
  span :: Span

text \<open>
  The document is a CodeMirror \<open>Text\<close>, which is not part of this repository: it is
  modelled by its lines. A line break counts as one position. \<open>lineAt\<close> raises a
  \<open>RangeError\<close> outside \<open>0 .. length\<close> and otherwise gives the line around the
  position; a position at the end of a line belongs to that line. Only the line's
  \<open>number\<close> (from 1) is used.
\<close>

type_synonym Text = "string list"

definition doc_length :: "Text \<Rightarrow> int" where
  "doc_length doc = int (sum_list (map length doc)) + int (length doc) - 1"

fun line_inner :: "Text \<Rightarrow> int \<Rightarrow> int \<Rightarrow> nat \<Rightarrow> nat" where
  "line_inner [] target offset line = line"
| "line_inner (s # rest) target offset line =
     (let end = offset + int (length s)
      in if end \<ge> target then line else line_inner rest target (end + 1) (Suc line))"

definition lineAt_number :: "Text \<Rightarrow> int \<Rightarrow> exn + nat" where
  "lineAt_number doc pos =
     (if pos < 0 \<or> pos > doc_length doc then Inl (RangeError pos)
      else Inr (line_inner doc pos 0 1))"

section \<open>The formula API\<close>

definition VALUES_OF_TYPE :: "('x Snippet_scheme) list \<Rightarrow> string \<Rightarrow> ('x Snippet_scheme) list" where
  "VALUES_OF_TYPE snippets ty = filter (\<lambda>snippet. type snippet = ty) snippets"

definition ON_SAME_LINE :: "Text \<Rightarrow> 'x Snippet_scheme \<Rightarrow> 'x Snippet_scheme \<Rightarrow> exn + bool" where
  "ON_SAME_LINE doc a b =
     (case lineAt_number doc (fst (span a)) of Inl e \<Rightarrow> Inl e | Inr lineStartA \<Rightarrow>
     (case lineAt_number doc (snd (span a)) of Inl e \<Rightarrow> Inl e | Inr lineEndA \<Rightarrow>
     (case lineAt_number doc (fst (span b)) of Inl e \<Rightarrow> Inl e | Inr lineStartB \<Rightarrow>
     (case lineAt_number doc (snd (span b)) of Inl e \<Rightarrow> Inl e | Inr lineEndB \<Rightarrow>
        Inr (lineStartA = lineEndA \<and> lineStartB = lineEndB \<and> lineStartA = lineStartB)))))"

text \<open>
  \<open>ON_SAME_LINE\<close> and \<open>FILTER\<close> are wrapped in lodash's \<open>curry\<close>: given both arguments
  they run the wrapped function, which is what the definitions here are.

  \<open>FILTER\<close>: \<open>invoke f x\<close> is the result of calling the function value \<open>f\<close> on \<open>x\<close>.
  When the condition is not a function the callback returns the item itself.
\<close>

definition FILTER ::
  "(jsval \<Rightarrow> jsval \<Rightarrow> exn + jsval) \<Rightarrow> jsval list \<Rightarrow> jsval \<Rightarrow> exn + jsval list" where
  "FILTER invoke list condition =
     array_filter (\<lambda>item. if isFunction condition then invoke condition item else Inr item) list"

definition FIRST :: "jsval list \<Rightarrow> jsval" where
  "FIRST list = at_index list 0"

definition SECOND :: "jsval list \<Rightarrow> jsval" where
  "SECOND list = at_index list 1"

section \<open>Evaluating a formula\<close>

text \<open>The object \<open>API\<close> that \<open>evaluateFormula\<close> builds from the snippets and the document.\<close>

record 'x API =
  api_VALUES_OF_TYPE :: "string \<Rightarrow> ('x Snippet_scheme) list"
  api_ON_SAME_LINE :: "'x Snippet_scheme \<Rightarrow> 'x Snippet_scheme \<Rightarrow> exn + bool"
  api_FILTER :: "jsval list \<Rightarrow> jsval \<Rightarrow> exn + jsval list"
  api_FIRST :: "jsval list \<Rightarrow> jsval"
  api_SECOND :: "jsval list \<Rightarrow> jsval"

text \<open>
  The JavaScript engine, which the code reaches through \<open>new Function\<close>: \<open>run source api\<close>
  compiles \<open>with (API) { return source }\<close> and calls it on the API object, returning the
  value or the exception thrown (a \<open>SyntaxError\<close> for a malformed source, whatever the
  expression throws otherwise); \<open>call f x\<close> calls a function value.
\<close>

record 'x engine =
  run :: "string \<Rightarrow> 'x API \<Rightarrow> exn + jsval"
  call :: "jsval \<Rightarrow> jsval \<Rightarrow> exn + jsval"

definition evaluateFormula ::
  "'x engine \<Rightarrow> string \<Rightarrow> ('x Snippet_scheme) list \<Rightarrow> Text \<Rightarrow> exn + jsval" where
  "evaluateFormula js source snippets doc =
     run js source
       \<lparr> api_VALUES_OF_TYPE = VALUES_OF_TYPE snippets,
         api_ON_SAME_LINE = ON_SAME_LINE doc,
         api_FILTER = FILTER (call js),
         api_FIRST = FIRST,
         api_SECOND = SECOND \<rparr>"

section \<open>Evaluating the columns\<close>

record FormulaColumn =
  name :: string
  formula :: string

type_synonym ResultRow = "string \<rightharpoonup> jsval"

text \<open>The inner loop: one row \<open>{[column.name]: item}\<close> is pushed for each item.\<close>

fun push_items :: "string \<Rightarrow> jsval list \<Rightarrow> ResultRow list \<Rightarrow> ResultRow list" where
  "push_items col [] resultRows = resultRows"
| "push_items col (item # items) resultRows =
     push_items col items (resultRows @ [[col \<mapsto> item]])"

text \<open>
  The loop over the columns. \<open>ev\<close> evaluates a formula source; the state is the rows
  pushed so far and the columns whose formula has been evaluated so far, in order. An
  exception of a formula leaves the loop and the function.
\<close>

fun columns_loop ::
  "(string \<Rightarrow> exn + jsval) \<Rightarrow> FormulaColumn list \<Rightarrow> ResultRow list \<Rightarrow> FormulaColumn list
     \<Rightarrow> FormulaColumn list \<times> (exn + ResultRow list)" where
  "columns_loop ev [] resultRows evaluated = (evaluated, Inr resultRows)"
| "columns_loop ev (column # rest) resultRows evaluated =
     (if length resultRows = 0 then
        (case ev (formula column) of
           Inl e \<Rightarrow> (evaluated @ [column], Inl e)
         | Inr result \<Rightarrow>
             (case result of
                Arr items \<Rightarrow>
                  columns_loop ev rest (push_items (name column) items resultRows)
                    (evaluated @ [column])
              | _ \<Rightarrow>
                  columns_loop ev rest (resultRows @ [[name column \<mapsto> result]])
                    (evaluated @ [column])))
      else columns_loop ev rest resultRows evaluated)"

definition evaluateColumns_traced ::
  "'x engine \<Rightarrow> FormulaColumn list \<Rightarrow> ('x Snippet_scheme) list \<Rightarrow> Text
     \<Rightarrow> FormulaColumn list \<times> (exn + ResultRow list)" where
  "evaluateColumns_traced js columns snippets doc =
     columns_loop (\<lambda>source. evaluateFormula js source snippets doc) columns [] []"

text \<open>What \<open>evaluateColumns\<close> returns or throws, and the columns it evaluated on the way.\<close>

definition evaluateColumns ::
  "'x engine \<Rightarrow> FormulaColumn list \<Rightarrow> ('x Snippet_scheme) list \<Rightarrow> Text \<Rightarrow> exn + ResultRow list" where
  "evaluateColumns js columns snippets doc = snd (evaluateColumns_traced js columns snippets doc)"

definition evaluated_columns ::
  "'x engine \<Rightarrow> FormulaColumn list \<Rightarrow> ('x Snippet_scheme) list \<Rightarrow> Text \<Rightarrow> FormulaColumn list" where
  "evaluated_columns js columns snippets doc = fst (evaluateColumns_traced js columns snippets doc)"

section \<open>The sort comparator\<close>

datatype SortMethod = Date | Alphabetical | Numeric

datatype direction = asc | desc

text \<open>
  A row of the sheet, as \<open>compareColumnValues\<close> uses it: its \<open>data\<close> by column name and
  its \<open>span\<close> (the field \<open>row_span\<close>, since \<open>span\<close> is the snippet's). A column that
  \<open>data\<close> does not have reads as \<open>undefined\<close>; \<open>data\<close> is taken as a plain dictionary, so
  names inherited from \<open>Object.prototype\<close> (a column called \<open>constructor\<close>) are not modelled.
\<close>

record SheetValueRow =
  data :: "string \<rightharpoonup> jsval"
  row_span :: Span

definition cell :: "SheetValueRow \<Rightarrow> string \<Rightarrow> jsval" where
  "cell row columnName = (case data row columnName of None \<Rightarrow> Undefined | Some v \<Rightarrow> v)"

text \<open>
  What the comparator takes from outside this file: \<open>isValueRowHighlight\<close> (on a row and
  on a cell value) and \<open>getTextForHighlight\<close> of \<open>./utils\<close>, and of the JavaScript library
  \<open>new Date(v).getTime()\<close>, \<open>parseFloat(v)\<close> and \<open>String(a).localeCompare(b)\<close>.
\<close>

record utils =
  isValueRowHighlight_row :: "SheetValueRow \<Rightarrow> bool"
  isValueRowHighlight :: "jsval \<Rightarrow> bool"
  getTextForHighlight :: "jsval \<Rightarrow> jsval"
  getTime :: "jsval \<Rightarrow> number"
  parseFloat :: "jsval \<Rightarrow> number"
  localeCompare :: "jsval \<Rightarrow> jsval \<Rightarrow> number"

text \<open>
  Subtraction and negation of JavaScript numbers. Finite values are subtracted as reals:
  the rounding of doubles and an overflow to an infinity are not modelled; the sign of the
  difference and whether it is 0 are the same in both readings.
\<close>

fun num_sub :: "number \<Rightarrow> number \<Rightarrow> number" where
  "num_sub NaN y = NaN"
| "num_sub x NaN = NaN"
| "num_sub (Fin x) (Fin y) = Fin (x - y)"
| "num_sub (Fin x) PosInf = NegInf"
| "num_sub (Fin x) NegInf = PosInf"
| "num_sub PosInf PosInf = NaN"
| "num_sub PosInf y = PosInf"
| "num_sub NegInf NegInf = NaN"
| "num_sub NegInf y = NegInf"

fun num_neg :: "number \<Rightarrow> number" where
  "num_neg NaN = NaN"
| "num_neg (Fin x) = Fin (- x)"
| "num_neg PosInf = NegInf"
| "num_neg NegInf = PosInf"

text \<open>\<open>aValue\<close> and \<open>bValue\<close>: the display text of a highlight, the cell's value otherwise.\<close>

definition sort_value :: "utils \<Rightarrow> SheetValueRow \<Rightarrow> string \<Rightarrow> jsval" where
  "sort_value u row columnName =
     (if isValueRowHighlight u (cell row columnName)
      then getTextForHighlight u (cell row columnName)
      else cell row columnName)"

text \<open>The value of \<open>rv\<close> before the direction is applied.\<close>

definition primary_comparison ::
  "utils \<Rightarrow> SheetValueRow \<Rightarrow> SheetValueRow \<Rightarrow> string \<Rightarrow> SortMethod \<Rightarrow> number" where
  "primary_comparison u a b columnName sortMethod =
     (let aValue = sort_value u a columnName;
          bValue = sort_value u b columnName
      in if aValue = Undefined then (if bValue = Undefined then Fin 0 else Fin 1)
         else if bValue = Undefined then Fin (- 1)
         else (case sortMethod of
                 Date \<Rightarrow> num_sub (getTime u aValue) (getTime u bValue)
               | Numeric \<Rightarrow> num_sub (parseFloat u aValue) (parseFloat u bValue)
               | Alphabetical \<Rightarrow> localeCompare u aValue bValue))"

definition compareColumnValues ::
  "utils \<Rightarrow> SheetValueRow \<Rightarrow> SheetValueRow \<Rightarrow> string \<Rightarrow> SortMethod \<Rightarrow> direction \<Rightarrow> number" where
  "compareColumnValues u a b columnName sortMethod dir =
     (let rv0 = primary_comparison u a b columnName sortMethod;
          rv = (if dir = desc then num_neg rv0 else rv0)
      in if rv = Fin 0
         then (if isValueRowHighlight_row u a \<and> isValueRowHighlight_row u b
               then Fin (real_of_int (fst (row_span a) - fst (row_span b)))
               else Fin 0)
         else rv)"

section \<open>Vocabulary of the statements\<close>

text \<open>
  The rows that one formula result stands for: one row per element of a list, one row for
  any other value, each with the column's name as its only key.
\<close>

definition rows_of_result :: "string \<Rightarrow> jsval \<Rightarrow> ResultRow list" where
  "rows_of_result col result =
     (case result of Arr items \<Rightarrow> map (\<lambda>item. [col \<mapsto> item]) items | _ \<Rightarrow> [[col \<mapsto> result]])"

text \<open>A snippet whose two span offsets are positions of the document.\<close>

definition span_in_doc :: "Text \<Rightarrow> 'x Snippet_scheme \<Rightarrow> bool" where
  "span_in_doc doc s =
     (0 \<le> fst (span s) \<and> fst (span s) \<le> doc_length doc \<and>
      0 \<le> snd (span s) \<and> snd (span s) \<le> doc_length doc)"

section \<open>Example inputs\<close>

text \<open>
  An engine given by a table of the sources the examples use, with the value JavaScript
  gives each of them; \<open>[1,\<close> and \<open>FIRST(1,\<close> do not parse. Calling a function value
  returns \<open>true\<close>, calling anything else is a \<open>TypeError\<close>.
\<close>

definition example_run :: "string \<Rightarrow> unit API \<Rightarrow> exn + jsval" where
  "example_run source api =
     (if source = ''[1,2,3]'' then Inr (Arr [Num (Fin 1), Num (Fin 2), Num (Fin 3)])
      else if source = ''99'' then Inr (Num (Fin 99))
      else if source = ''[]'' then Inr (Arr [])
      else if source = ''undefined'' then Inr Undefined
      else if source = ''FIRST([])'' then Inr (api_FIRST api [])
      else if source = ''[1,'' then Inl SyntaxError
      else if source = ''FIRST(1,'' then Inl SyntaxError
      else Inl ReferenceError)"

definition example_call :: "jsval \<Rightarrow> jsval \<Rightarrow> exn + jsval" where
  "example_call f x = (if isFunction f then Inr (Boolean True) else Inl TypeError)"

definition example_js :: "unit engine" where
  "example_js = \<lparr> run = example_run, call = example_call \<rparr>"

definition column_a :: "string \<Rightarrow> FormulaColumn" where
  "column_a source = \<lparr> name = ''a'', formula = source \<rparr>"

definition column_b :: "string \<Rightarrow> FormulaColumn" where
  "column_b source = \<lparr> name = ''b'', formula = source \<rparr>"

definition snippet_at :: "string \<Rightarrow> int \<Rightarrow> int \<Rightarrow> Snippet" where
  "snippet_at ty from to = \<lparr> type = ty, span = (from, to) \<rparr>"

definition example_doc :: Text where
  "example_doc = [''ab'', ''cd'']"

text \<open>
  Helpers for the comparator's examples: cells are plain values, every row is a highlight,
  and \<open>parseFloat\<close> of a number is that number. The examples compare numbers, or a value
  with \<open>undefined\<close>: they do not reach \<open>getTime\<close>, and \<open>localeCompare\<close> is filled in for the
  strings \<open>a\<close> and \<open>b\<close> only.
\<close>

definition example_parseFloat :: "jsval \<Rightarrow> number" where
  "example_parseFloat v = (case v of Num n \<Rightarrow> n | _ \<Rightarrow> NaN)"

definition example_localeCompare :: "jsval \<Rightarrow> jsval \<Rightarrow> number" where
  "example_localeCompare x y =
     (if x = Str ''a'' \<and> y = Str ''b'' then Fin (- 1)
      else if x = Str ''b'' \<and> y = Str ''a'' then Fin 1
      else Fin 0)"

definition example_utils :: utils where
  "example_utils =
     \<lparr> isValueRowHighlight_row = (\<lambda>row. True),
       isValueRowHighlight = (\<lambda>v. False),
       getTextForHighlight = (\<lambda>v. v),
       getTime = (\<lambda>v. NaN),
       parseFloat = example_parseFloat,
       localeCompare = example_localeCompare \<rparr>"

definition row_n :: "jsval \<Rightarrow> int \<Rightarrow> SheetValueRow" where
  "row_n v from = \<lparr> data = [''n'' \<mapsto> v], row_span = (from, from + 1) \<rparr>"

definition row_without_n :: SheetValueRow where
  "row_without_n = \<lparr> data = Map.empty, row_span = (0, 1) \<rparr>"

section \<open>Lemmas on the loops\<close>

lemma array_filter_total:
  "(\<And>x. x \<in> set xs \<Longrightarrow> cb x = Inr (f x)) \<Longrightarrow> array_filter cb xs = Inr (filter (\<lambda>x. truthy (f x)) xs)"
  by (induction xs) auto

lemma push_items_append:
  "push_items col items resultRows = resultRows @ map (\<lambda>item. [col \<mapsto> item]) items"
  by (induction items arbitrary: resultRows) auto

lemma columns_loop_done:
  "resultRows \<noteq> [] \<Longrightarrow> columns_loop ev cs resultRows evaluated = (evaluated, Inr resultRows)"
  by (induction cs) auto

lemma rows_of_result_nonempty: "v \<noteq> Arr [] \<Longrightarrow> rows_of_result col v \<noteq> []"
  by (cases v) (auto simp: rows_of_result_def)

lemma columns_loop_rows:
  "ev (formula c) = Inr v \<Longrightarrow> v \<noteq> Arr [] \<Longrightarrow>
   columns_loop ev (c # rest) [] evaluated = (evaluated @ [c], Inr (rows_of_result (name c) v))"
  using rows_of_result_nonempty[of v "name c"]
  by (cases v) (auto simp: rows_of_result_def push_items_append columns_loop_done)

lemma columns_loop_prefix:
  "\<forall>p\<in>set pre. ev (formula p) = Inr (Arr []) \<Longrightarrow>
   columns_loop ev (pre @ rest) [] evaluated = columns_loop ev rest [] (evaluated @ pre)"
  by (induction pre arbitrary: evaluated) auto

lemma columns_split:
  "(\<forall>c\<in>set cs. ev (formula c) = Inr (Arr [])) \<or>
   (\<exists>pre c post. cs = pre @ c # post \<and> (\<forall>p\<in>set pre. ev (formula p) = Inr (Arr []))
      \<and> ev (formula c) \<noteq> Inr (Arr []))"
proof (induction cs)
  case Nil
  then show ?case by simp
next
  case (Cons x xs)
  show ?case
  proof (cases "ev (formula x) = Inr (Arr [])")
    case False
    then have "x # xs = [] @ x # xs \<and> (\<forall>p\<in>set []. ev (formula p) = Inr (Arr []))
      \<and> ev (formula x) \<noteq> Inr (Arr [])" by simp
    then show ?thesis by blast
  next
    case True
    from Cons.IH show ?thesis
    proof
      assume "\<forall>c\<in>set xs. ev (formula c) = Inr (Arr [])"
      with True show ?thesis by simp
    next
      assume "\<exists>pre c post. xs = pre @ c # post \<and> (\<forall>p\<in>set pre. ev (formula p) = Inr (Arr []))
        \<and> ev (formula c) \<noteq> Inr (Arr [])"
      then obtain pre c post where h: "xs = pre @ c # post"
        "\<forall>p\<in>set pre. ev (formula p) = Inr (Arr [])" "ev (formula c) \<noteq> Inr (Arr [])" by blast
      with True have "x # xs = (x # pre) @ c # post \<and>
        (\<forall>p\<in>set (x # pre). ev (formula p) = Inr (Arr [])) \<and> ev (formula c) \<noteq> Inr (Arr [])"
        by simp
      then show ?thesis by blast
    qed
  qed
qed

lemma columns_loop_all_empty:
  "\<forall>c\<in>set cs. ev (formula c) = Inr (Arr []) \<Longrightarrow>
   columns_loop ev cs [] evaluated = (evaluated @ cs, Inr [])"
  using columns_loop_prefix[of cs ev "[]" evaluated] by simp

lemma columns_loop_at_throw:
  "\<forall>p\<in>set pre. ev (formula p) = Inr (Arr []) \<Longrightarrow> ev (formula c) = Inl e \<Longrightarrow>
   columns_loop ev (pre @ c # post) [] evaluated = (evaluated @ pre @ [c], Inl e)"
  by (simp add: columns_loop_prefix)

lemma columns_loop_at_rows:
  "\<forall>p\<in>set pre. ev (formula p) = Inr (Arr []) \<Longrightarrow> ev (formula c) = Inr v \<Longrightarrow> v \<noteq> Arr [] \<Longrightarrow>
   columns_loop ev (pre @ c # post) [] evaluated =
     (evaluated @ pre @ [c], Inr (rows_of_result (name c) v))"
  by (simp add: columns_loop_prefix columns_loop_rows del: columns_loop.simps)

lemma rows_of_result_dom: "row \<in> set (rows_of_result col v) \<Longrightarrow> dom row = {col}"
  by (cases v) (auto simp: rows_of_result_def split: if_splits)

lemma columns_loop_log:
  "columns_loop ev cs rows evaluated =
     (evaluated @ fst (columns_loop ev cs rows []), snd (columns_loop ev cs rows []))"
proof (induction cs arbitrary: rows evaluated)
  case Nil
  show ?case by simp
next
  case (Cons c cs)
  note a = Cons.IH [of _ "evaluated @ [c]"]
  note b = Cons.IH [of _ "[c]"]
  note d = Cons.IH [of rows evaluated]
  show ?case
    by (simp add: a b d split: sum.split jsval.split)
qed

section \<open>The built-in functions\<close>

text \<open>
  Claim C9. \<open>FIRST\<close> returns the element at index 0 and \<open>SECOND\<close> the element at index 1,
  and each returns \<open>undefined\<close> when the list has no such index; the four examples of
  the specification are instances.
\<close>

theorem FIRST_SECOND_index:
  "FIRST [] = Undefined \<and> FIRST (x # xs) = x \<and>
   SECOND [] = Undefined \<and> SECOND [x] = Undefined \<and> SECOND (x # y # ys) = y \<and>
   FIRST [Num (Fin 5), Num (Fin 6)] = Num (Fin 5) \<and>
   SECOND [Num (Fin 5), Num (Fin 6)] = Num (Fin 6) \<and>
   SECOND [Num (Fin 1)] = Undefined"
  by (simp add: FIRST_def SECOND_def at_index_def)

text \<open>
  Claim C7. \<open>VALUES_OF_TYPE(T)\<close> on the snippets \<open>S\<close> is a subsequence of \<open>S\<close>, all its
  elements have type \<open>T\<close>, and every subsequence of \<open>S\<close> whose elements all have type \<open>T\<close>
  is a subsequence of it: it is exactly the elements of type \<open>T\<close>, in the order of \<open>S\<close>.
\<close>

theorem VALUES_OF_TYPE_exact:
  "subseq (VALUES_OF_TYPE S T) S \<and>
   (\<forall>s\<in>set (VALUES_OF_TYPE S T). type s = T) \<and>
   (\<forall>ys. subseq ys S \<and> (\<forall>s\<in>set ys. type s = T) \<longrightarrow> subseq ys (VALUES_OF_TYPE S T))"
proof (intro conjI allI impI)
  show "subseq (VALUES_OF_TYPE S T) S"
    by (simp add: VALUES_OF_TYPE_def)
  show "\<forall>s\<in>set (VALUES_OF_TYPE S T). type s = T"
    by (simp add: VALUES_OF_TYPE_def)
next
  fix ys
  assume h: "subseq ys S \<and> (\<forall>s\<in>set ys. type s = T)"
  then have e: "filter (\<lambda>s. type s = T) ys = ys"
    by (simp add: filter_id_conv)
  from h have "subseq (filter (\<lambda>s. type s = T) ys) (filter (\<lambda>s. type s = T) S)"
    by (intro subseq_filter) simp
  then have "subseq ys (filter (\<lambda>s. type s = T) S)"
    by (simp only: e)
  then show "subseq ys (VALUES_OF_TYPE S T)"
    by (simp only: VALUES_OF_TYPE_def)
qed

theorem VALUES_OF_TYPE_exact_witness:
  "subseq [snippet_at ''a'' 0 1, snippet_at ''a'' 4 5]
     (VALUES_OF_TYPE [snippet_at ''a'' 0 1, snippet_at ''b'' 2 3, snippet_at ''a'' 4 5] ''a'') \<and>
   subseq (VALUES_OF_TYPE [snippet_at ''a'' 0 1, snippet_at ''b'' 2 3, snippet_at ''a'' 4 5] ''a'')
     [snippet_at ''a'' 0 1, snippet_at ''b'' 2 3, snippet_at ''a'' 4 5]"
proof -
  have h: "subseq [snippet_at ''a'' 0 1, snippet_at ''a'' 4 5]
             [snippet_at ''a'' 0 1, snippet_at ''b'' 2 3, snippet_at ''a'' 4 5] \<and>
           (\<forall>s\<in>set [snippet_at ''a'' 0 1, snippet_at ''a'' 4 5]. type s = ''a'')"
    by (simp add: snippet_at_def)
  from VALUES_OF_TYPE_exact
    [of "[snippet_at ''a'' 0 1, snippet_at ''b'' 2 3, snippet_at ''a'' 4 5]" "''a''"] h
  show ?thesis by blast
qed

lemma lineAt_number_in_doc:
  "0 \<le> pos \<Longrightarrow> pos \<le> doc_length doc \<Longrightarrow> lineAt_number doc pos = Inr (line_inner doc pos 0 1)"
  by (simp add: lineAt_number_def)

text \<open>
  Claim C8. For two snippets whose spans lie inside the document, \<open>ON_SAME_LINE\<close> returns
  (it does not throw) and gives the same result with its arguments exchanged.
\<close>

theorem ON_SAME_LINE_symmetric:
  "span_in_doc doc a \<Longrightarrow> span_in_doc doc b \<Longrightarrow>
   (\<exists>r. ON_SAME_LINE doc a b = Inr r) \<and> ON_SAME_LINE doc a b = ON_SAME_LINE doc b a"
  by (auto simp: span_in_doc_def ON_SAME_LINE_def lineAt_number_in_doc)

theorem ON_SAME_LINE_symmetric_witness:
  "span_in_doc example_doc (snippet_at ''x'' 0 2) \<and> span_in_doc example_doc (snippet_at ''y'' 3 5) \<and>
   ON_SAME_LINE example_doc (snippet_at ''x'' 0 2) (snippet_at ''y'' 3 5) =
   ON_SAME_LINE example_doc (snippet_at ''y'' 3 5) (snippet_at ''x'' 0 2)"
proof -
  have a: "span_in_doc example_doc (snippet_at ''x'' 0 2)"
    by (simp add: span_in_doc_def example_doc_def snippet_at_def doc_length_def)
  have b: "span_in_doc example_doc (snippet_at ''y'' 3 5)"
    by (simp add: span_in_doc_def example_doc_def snippet_at_def doc_length_def)
  from ON_SAME_LINE_symmetric [OF a b] a b show ?thesis by blast
qed

text \<open>
  Claim C2, as stated, fails: with a condition that is not a function, \<open>FILTER\<close> drops
  the falsy element \<open>0\<close> of the list \<open>[0, 1]\<close>.
\<close>

theorem FILTER_not_callable_counterexample:
  "\<not> isFunction (Str ''not a function'') \<and>
   FILTER example_call [Num (Fin 0), Num (Fin 1)] (Str ''not a function'') = Inr [Num (Fin 1)] \<and>
   FILTER example_call [Num (Fin 0), Num (Fin 1)] (Str ''not a function'')
     \<noteq> Inr [Num (Fin 0), Num (Fin 1)]"
  by (simp add: FILTER_def)

text \<open>
  Claim C2, amended. With a condition that is not a function, \<open>FILTER\<close> returns the truthy
  elements of the list, in order; it returns the list unchanged exactly when every element
  is truthy.
\<close>

theorem FILTER_not_callable:
  "\<not> isFunction condition \<Longrightarrow>
   FILTER invoke list condition = Inr (filter truthy list) \<and>
   ((FILTER invoke list condition = Inr list) = (\<forall>item\<in>set list. truthy item))"
proof -
  assume "\<not> isFunction condition"
  then have "FILTER invoke list condition = Inr (filter truthy list)"
    by (simp add: FILTER_def array_filter_total [where f = "\<lambda>x. x"])
  then show ?thesis by (simp add: filter_id_conv)
qed

theorem FILTER_not_callable_witness:
  "\<not> isFunction (Str ''not a function'') \<and>
   FILTER example_call [Num (Fin 2), Str [], Num (Fin 1)] (Str ''not a function'')
     = Inr [Num (Fin 2), Num (Fin 1)]"
proof -
  have h: "\<not> isFunction (Str ''not a function'')" by simp
  from FILTER_not_callable [OF h, of example_call "[Num (Fin 2), Str [], Num (Fin 1)]"] h
  show ?thesis by simp
qed

section \<open>The column evaluator\<close>

text \<open>
  Claim C3 holds of the design and not of this code. The renderer shows a cell that is an
  \<open>Error\<close> value as \<open>#Err\<close>, so a failed formula is meant to reach it as a value; but
  neither \<open>evaluateFormula\<close> nor \<open>evaluateColumns\<close> catches anything. On the columns
  \<open>a\<close> with formula \<open>[1,\<close> and \<open>b\<close> with formula \<open>99\<close>, the first formula does not parse,
  \<open>evaluateColumns\<close> throws the \<open>SyntaxError\<close> to its caller instead of returning rows, and
  the second column is never evaluated.
\<close>

theorem evaluateColumns_unparsable_formula:
  "evaluateFormula example_js ''[1,'' [] example_doc = Inl SyntaxError \<and>
   evaluateColumns example_js [column_a ''[1,'', column_b ''99''] [] example_doc = Inl SyntaxError \<and>
   evaluated_columns example_js [column_a ''[1,'', column_b ''99''] [] example_doc
     = [column_a ''[1,'']"
  by (simp add: evaluateColumns_def evaluated_columns_def evaluateColumns_traced_def
      evaluateFormula_def example_js_def example_run_def column_a_def column_b_def)

text \<open>
  The extent of that defect, for every engine: \<open>evaluateColumns\<close> throws \<open>e\<close> exactly when
  the first column whose formula does not evaluate to an empty list throws \<open>e\<close>, and that
  column is then the last one evaluated.
\<close>

lemma evaluateColumns_throws_iff:
  "(evaluateColumns js columns snippets doc = Inl e) =
   (\<exists>pre c post. columns = pre @ c # post \<and>
      (\<forall>p\<in>set pre. evaluateFormula js (formula p) snippets doc = Inr (Arr [])) \<and>
      evaluateFormula js (formula c) snippets doc = Inl e \<and>
      evaluated_columns js columns snippets doc = pre @ [c])"
  (is "?L = ?R")
proof
  assume ?R
  then obtain pre c post where h: "columns = pre @ c # post"
    "\<forall>p\<in>set pre. evaluateFormula js (formula p) snippets doc = Inr (Arr [])"
    "evaluateFormula js (formula c) snippets doc = Inl e" by blast
  then show ?L
    by (simp add: evaluateColumns_def evaluateColumns_traced_def columns_loop_at_throw
        del: columns_loop.simps)
next
  assume l: ?L
  let ?ev = "\<lambda>source. evaluateFormula js source snippets doc"
  from columns_split [of columns ?ev] show ?R
  proof
    assume "\<forall>c\<in>set columns. ?ev (formula c) = Inr (Arr [])"
    then have "evaluateColumns js columns snippets doc = Inr []"
      by (simp add: evaluateColumns_def evaluateColumns_traced_def columns_loop_all_empty)
    with l show ?R by simp
  next
    assume "\<exists>pre c post. columns = pre @ c # post \<and>
      (\<forall>p\<in>set pre. ?ev (formula p) = Inr (Arr [])) \<and> ?ev (formula c) \<noteq> Inr (Arr [])"
    then obtain pre c post where h: "columns = pre @ c # post"
      "\<forall>p\<in>set pre. ?ev (formula p) = Inr (Arr [])" "?ev (formula c) \<noteq> Inr (Arr [])" by blast
    show ?R
    proof (cases "?ev (formula c)")
      case (Inl e')
      with h have t: "evaluateColumns_traced js columns snippets doc = (pre @ [c], Inl e')"
        using columns_loop_at_throw [of pre ?ev c e' post "[]"]
        by (simp add: evaluateColumns_traced_def)
      with l have "e' = e" by (simp add: evaluateColumns_def)
      with t h Inl show ?R by (auto simp: evaluated_columns_def)
    next
      case (Inr v)
      with h have "v \<noteq> Arr []" by simp
      with h Inr have "evaluateColumns_traced js columns snippets doc =
          (pre @ [c], Inr (rows_of_result (name c) v))"
        using columns_loop_at_rows [of pre ?ev c v post "[]"]
        by (simp add: evaluateColumns_traced_def)
      with l show ?R by (simp add: evaluateColumns_def)
    qed
  qed
qed

text \<open>
  Claim C4, as stated, fails: when the first formula evaluates to the empty list, the
  second column is evaluated and the rows are its rows.
\<close>

theorem evaluateColumns_first_column_counterexample:
  "evaluateColumns example_js [column_a ''[]'', column_b ''99''] [] example_doc
     = Inr [[''b'' \<mapsto> Num (Fin 99)]] \<and>
   evaluated_columns example_js [column_a ''[]'', column_b ''99''] [] example_doc
     = [column_a ''[]'', column_b ''99'']"
  by (simp add: evaluateColumns_def evaluated_columns_def evaluateColumns_traced_def
      evaluateFormula_def example_js_def example_run_def column_a_def column_b_def)

text \<open>
  Claim C4, amended. When the first formula returns a value other than the empty list,
  the rows are one per element of a list and a single row for any other value, and the
  first column is the only one evaluated. When it returns the empty list, the first
  column gives no row and the remaining columns are evaluated as a column list of their
  own.
\<close>

theorem evaluateColumns_first_column:
  "evaluateFormula js (formula c) snippets doc = Inr v \<Longrightarrow>
   (v \<noteq> Arr [] \<longrightarrow>
      evaluateColumns js (c # rest) snippets doc = Inr (rows_of_result (name c) v) \<and>
      evaluated_columns js (c # rest) snippets doc = [c]) \<and>
   (v = Arr [] \<longrightarrow>
      evaluateColumns js (c # rest) snippets doc = evaluateColumns js rest snippets doc \<and>
      evaluated_columns js (c # rest) snippets doc = c # evaluated_columns js rest snippets doc)"
proof (intro conjI impI)
  let ?ev = "\<lambda>source. evaluateFormula js source snippets doc"
  assume r: "evaluateFormula js (formula c) snippets doc = Inr v"
  {
    assume "v \<noteq> Arr []"
    with r have t: "evaluateColumns_traced js (c # rest) snippets doc =
        ([c], Inr (rows_of_result (name c) v))"
      using columns_loop_rows [of ?ev c v rest "[]"] by (simp add: evaluateColumns_traced_def)
    from t show "evaluateColumns js (c # rest) snippets doc = Inr (rows_of_result (name c) v)"
      by (simp add: evaluateColumns_def)
    from t show "evaluated_columns js (c # rest) snippets doc = [c]"
      by (simp add: evaluated_columns_def)
  }
  {
    assume "v = Arr []"
    with r have "columns_loop ?ev (c # rest) [] [] = columns_loop ?ev rest [] [c]"
      by simp
    then have t: "evaluateColumns_traced js (c # rest) snippets doc =
        (c # evaluated_columns js rest snippets doc, evaluateColumns js rest snippets doc)"
      using columns_loop_log [of ?ev rest "[]" "[c]"]
      by (simp add: evaluateColumns_traced_def evaluateColumns_def evaluated_columns_def)
    from t show "evaluateColumns js (c # rest) snippets doc = evaluateColumns js rest snippets doc"
      by (simp add: evaluateColumns_def)
    from t show "evaluated_columns js (c # rest) snippets doc
        = c # evaluated_columns js rest snippets doc"
      by (simp add: evaluated_columns_def)
  }
qed

theorem evaluateColumns_first_column_witness:
  "evaluateFormula example_js (formula (column_a ''[1,2,3]'')) [] example_doc
     = Inr (Arr [Num (Fin 1), Num (Fin 2), Num (Fin 3)]) \<and>
   evaluateColumns example_js [column_a ''[1,2,3]'', column_b ''99''] [] example_doc
     = Inr [[''a'' \<mapsto> Num (Fin 1)], [''a'' \<mapsto> Num (Fin 2)], [''a'' \<mapsto> Num (Fin 3)]] \<and>
   evaluated_columns example_js [column_a ''[1,2,3]'', column_b ''99''] [] example_doc
     = [column_a ''[1,2,3]'']"
proof -
  have h: "evaluateFormula example_js (formula (column_a ''[1,2,3]'')) [] example_doc
     = Inr (Arr [Num (Fin 1), Num (Fin 2), Num (Fin 3)])"
    by (simp add: evaluateFormula_def example_js_def example_run_def column_a_def)
  from evaluateColumns_first_column [OF h, of "[column_b ''99'']"] h
  show ?thesis by (simp add: rows_of_result_def column_a_def)
qed

text \<open>
  Claim C5, as stated, fails: a first formula whose value is \<open>undefined\<close> gives one row,
  \<open>{a: undefined}\<close>.
\<close>

theorem evaluateColumns_empty_counterexample:
  "evaluateFormula example_js (formula (column_a ''undefined'')) [] example_doc = Inr Undefined \<and>
   evaluateColumns example_js [column_a ''undefined''] [] example_doc = Inr [[''a'' \<mapsto> Undefined]] \<and>
   evaluateColumns example_js [column_a ''undefined''] [] example_doc \<noteq> Inr []"
  by (simp add: evaluateColumns_def evaluateColumns_traced_def
      evaluateFormula_def example_js_def example_run_def column_a_def)

text \<open>
  Claim C5, amended. \<open>evaluateColumns([], snippets, doc)\<close> returns \<open>[]\<close>, and
  \<open>evaluateColumns\<close> returns the empty row list exactly when every column's formula
  evaluates to the empty list.
\<close>

theorem evaluateColumns_empty:
  "evaluateColumns js [] snippets doc = Inr [] \<and>
   ((evaluateColumns js columns snippets doc = Inr []) =
    (\<forall>c\<in>set columns. evaluateFormula js (formula c) snippets doc = Inr (Arr [])))"
proof
  show "evaluateColumns js [] snippets doc = Inr []"
    by (simp add: evaluateColumns_def evaluateColumns_traced_def)
next
  let ?ev = "\<lambda>source. evaluateFormula js source snippets doc"
  show "(evaluateColumns js columns snippets doc = Inr []) =
    (\<forall>c\<in>set columns. ?ev (formula c) = Inr (Arr []))" (is "?L = ?R")
  proof
    assume ?R
    then show ?L
      by (simp add: evaluateColumns_def evaluateColumns_traced_def columns_loop_all_empty)
  next
    assume l: ?L
    from columns_split [of columns ?ev] show ?R
    proof
      assume "\<exists>pre c post. columns = pre @ c # post \<and>
        (\<forall>p\<in>set pre. ?ev (formula p) = Inr (Arr [])) \<and> ?ev (formula c) \<noteq> Inr (Arr [])"
      then obtain pre c post where h: "columns = pre @ c # post"
        "\<forall>p\<in>set pre. ?ev (formula p) = Inr (Arr [])" "?ev (formula c) \<noteq> Inr (Arr [])" by blast
      have False
      proof (cases "?ev (formula c)")
        case (Inl e')
        with h have "evaluateColumns_traced js columns snippets doc = (pre @ [c], Inl e')"
          using columns_loop_at_throw [of pre ?ev c e' post "[]"]
          by (simp add: evaluateColumns_traced_def)
        with l show False by (simp add: evaluateColumns_def)
      next
        case (Inr v)
        with h have v: "v \<noteq> Arr []" by simp
        with h Inr have "evaluateColumns_traced js columns snippets doc =
            (pre @ [c], Inr (rows_of_result (name c) v))"
          using columns_loop_at_rows [of pre ?ev c v post "[]"]
          by (simp add: evaluateColumns_traced_def)
        with l rows_of_result_nonempty [OF v, of "name c"] show False
          by (simp add: evaluateColumns_def)
      qed
      then show ?R ..
    qed
  qed
qed

theorem evaluateColumns_empty_witness:
  "evaluateFormula example_js (formula (column_a ''[]'')) [] example_doc = Inr (Arr []) \<and>
   evaluateFormula example_js (formula (column_b ''[]'')) [] example_doc = Inr (Arr []) \<and>
   evaluateColumns example_js [column_a ''[]'', column_b ''[]''] [] example_doc = Inr []"
proof -
  have a: "evaluateFormula example_js (formula (column_a ''[]'')) [] example_doc = Inr (Arr [])"
    by (simp add: evaluateFormula_def example_js_def example_run_def column_a_def)
  have b: "evaluateFormula example_js (formula (column_b ''[]'')) [] example_doc = Inr (Arr [])"
    by (simp add: evaluateFormula_def example_js_def example_run_def column_b_def)
  from a b have h: "\<forall>c\<in>set [column_a ''[]'', column_b ''[]''].
      evaluateFormula example_js (formula c) [] example_doc = Inr (Arr [])"
    by simp
  from evaluateColumns_empty [of example_js "[]" example_doc "[column_a ''[]'', column_b ''[]'']"] h
  have "evaluateColumns example_js [column_a ''[]'', column_b ''[]''] [] example_doc = Inr []"
    by blast
  with a b show ?thesis by blast
qed

text \<open>
  Claim C10. When \<open>evaluateColumns\<close> returns rows, they all come from one column: the
  earliest column whose formula gave a value other than the empty list (every column
  before it gave the empty list). Each row has that column's name as its only key, and
  that column is the last one evaluated.
\<close>

theorem evaluateColumns_one_key:
  "evaluateColumns js columns snippets doc = Inr rows \<Longrightarrow> rows \<noteq> [] \<Longrightarrow>
   \<exists>pre c post v. columns = pre @ c # post \<and>
      (\<forall>p\<in>set pre. evaluateFormula js (formula p) snippets doc = Inr (Arr [])) \<and>
      evaluateFormula js (formula c) snippets doc = Inr v \<and> v \<noteq> Arr [] \<and>
      rows = rows_of_result (name c) v \<and>
      (\<forall>row\<in>set rows. dom row = {name c}) \<and>
      evaluated_columns js columns snippets doc = pre @ [c]"
proof -
  let ?ev = "\<lambda>source. evaluateFormula js source snippets doc"
  assume l: "evaluateColumns js columns snippets doc = Inr rows" and ne: "rows \<noteq> []"
  from columns_split [of columns ?ev] show ?thesis
  proof
    assume "\<forall>c\<in>set columns. ?ev (formula c) = Inr (Arr [])"
    then have "evaluateColumns js columns snippets doc = Inr []"
      by (simp add: evaluateColumns_def evaluateColumns_traced_def columns_loop_all_empty)
    with l ne show ?thesis by simp
  next
    assume "\<exists>pre c post. columns = pre @ c # post \<and>
      (\<forall>p\<in>set pre. ?ev (formula p) = Inr (Arr [])) \<and> ?ev (formula c) \<noteq> Inr (Arr [])"
    then obtain pre c post where h: "columns = pre @ c # post"
      "\<forall>p\<in>set pre. ?ev (formula p) = Inr (Arr [])" "?ev (formula c) \<noteq> Inr (Arr [])" by blast
    show ?thesis
    proof (cases "?ev (formula c)")
      case (Inl e')
      with h have "evaluateColumns_traced js columns snippets doc = (pre @ [c], Inl e')"
        using columns_loop_at_throw [of pre ?ev c e' post "[]"]
        by (simp add: evaluateColumns_traced_def)
      with l show ?thesis by (simp add: evaluateColumns_def)
    next
      case (Inr v)
      with h have v: "v \<noteq> Arr []" by simp
      with h Inr have t: "evaluateColumns_traced js columns snippets doc =
          (pre @ [c], Inr (rows_of_result (name c) v))"
        using columns_loop_at_rows [of pre ?ev c v post "[]"]
        by (simp add: evaluateColumns_traced_def)
      with l have r: "rows = rows_of_result (name c) v" by (simp add: evaluateColumns_def)
      then have k: "\<forall>row\<in>set rows. dom row = {name c}"
        using rows_of_result_dom by blast
      from t have "evaluated_columns js columns snippets doc = pre @ [c]"
        by (simp add: evaluated_columns_def)
      with h Inr v r k show ?thesis by blast
    qed
  qed
qed

theorem evaluateColumns_one_key_witness:
  "evaluateColumns example_js [column_a ''[]'', column_b ''[1,2,3]'', column_a ''99''] [] example_doc
     = Inr [[''b'' \<mapsto> Num (Fin 1)], [''b'' \<mapsto> Num (Fin 2)], [''b'' \<mapsto> Num (Fin 3)]] \<and>
   (\<exists>pre c post v.
      [column_a ''[]'', column_b ''[1,2,3]'', column_a ''99''] = pre @ c # post \<and>
      evaluateFormula example_js (formula c) [] example_doc = Inr v \<and> v \<noteq> Arr [] \<and>
      [[''b'' \<mapsto> Num (Fin 1)], [''b'' \<mapsto> Num (Fin 2)], [''b'' \<mapsto> Num (Fin 3)]]
        = rows_of_result (name c) v \<and>
      dom [''b'' \<mapsto> Num (Fin 1)] = {name c} \<and>
      evaluated_columns example_js [column_a ''[]'', column_b ''[1,2,3]'', column_a ''99''] []
        example_doc = pre @ [c])"
proof -
  have h: "evaluateColumns example_js [column_a ''[]'', column_b ''[1,2,3]'', column_a ''99''] []
      example_doc
     = Inr [[''b'' \<mapsto> Num (Fin 1)], [''b'' \<mapsto> Num (Fin 2)], [''b'' \<mapsto> Num (Fin 3)]]"
    by (simp add: evaluateColumns_def evaluateColumns_traced_def
      evaluateFormula_def example_js_def example_run_def column_a_def column_b_def)
  have n: "[[''b'' \<mapsto> Num (Fin 1)], [''b'' \<mapsto> Num (Fin 2)], [''b'' \<mapsto> Num (Fin 3)]] \<noteq> []"
    by simp
  from evaluateColumns_one_key [OF h n] obtain pre c post v where
    k: "[column_a ''[]'', column_b ''[1,2,3]'', column_a ''99''] = pre @ c # post"
      "evaluateFormula example_js (formula c) [] example_doc = Inr v" "v \<noteq> Arr []"
      "[[''b'' \<mapsto> Num (Fin 1)], [''b'' \<mapsto> Num (Fin 2)], [''b'' \<mapsto> Num (Fin 3)]]
        = rows_of_result (name c) v"
      "\<forall>row\<in>set [[''b'' \<mapsto> Num (Fin 1)], [''b'' \<mapsto> Num (Fin 2)], [''b'' \<mapsto> Num (Fin 3)]].
         dom row = {name c}"
      "evaluated_columns example_js [column_a ''[]'', column_b ''[1,2,3]'', column_a ''99''] []
        example_doc = pre @ [c]"
    by blast
  from k(5) have "dom [''b'' \<mapsto> Num (Fin 1)] = {name c}"
    by simp
  with h k show ?thesis by blast
qed

section \<open>The sort comparator\<close>

text \<open>
  Claim C1, as stated, fails for the descending direction: comparing a row whose value is
  \<open>undefined\<close> with a row whose value is \<open>a\<close> gives \<open>-1\<close>, which sorts the \<open>undefined\<close>
  row first.
\<close>

theorem compareColumnValues_undefined_counterexample:
  "sort_value example_utils row_without_n ''n'' = Undefined \<and>
   sort_value example_utils (row_n (Str ''a'') 5) ''n'' = Str ''a'' \<and>
   compareColumnValues example_utils row_without_n (row_n (Str ''a'') 5) ''n'' Alphabetical desc
     = Fin (- 1)"
  by (simp add: compareColumnValues_def primary_comparison_def sort_value_def cell_def
      example_utils_def row_without_n_def row_n_def)

text \<open>
  Claim C1, amended. When both values are \<open>undefined\<close> the primary comparison is 0. When
  exactly one is, the comparator puts the defined value first in ascending direction and
  the \<open>undefined\<close> value first in descending direction: the direction flips this
  comparison like any other.
\<close>

theorem compareColumnValues_undefined:
  "sort_value u a columnName = Undefined \<Longrightarrow>
   (sort_value u b columnName = Undefined \<longrightarrow>
      primary_comparison u a b columnName sortMethod = Fin 0) \<and>
   (sort_value u b columnName \<noteq> Undefined \<longrightarrow>
      compareColumnValues u a b columnName sortMethod asc = Fin 1 \<and>
      compareColumnValues u b a columnName sortMethod asc = Fin (- 1) \<and>
      compareColumnValues u a b columnName sortMethod desc = Fin (- 1) \<and>
      compareColumnValues u b a columnName sortMethod desc = Fin 1)"
  by (simp add: compareColumnValues_def primary_comparison_def)

theorem compareColumnValues_undefined_witness:
  "sort_value example_utils row_without_n ''n'' = Undefined \<and>
   sort_value example_utils (row_n (Str ''a'') 5) ''n'' \<noteq> Undefined \<and>
   compareColumnValues example_utils row_without_n (row_n (Str ''a'') 5) ''n'' Alphabetical asc = Fin 1 \<and>
   compareColumnValues example_utils (row_n (Str ''a'') 5) row_without_n ''n'' Alphabetical asc
     = Fin (- 1) \<and>
   primary_comparison example_utils row_without_n row_without_n ''n'' Alphabetical = Fin 0"
proof -
  have h: "sort_value example_utils row_without_n ''n'' = Undefined"
    by (simp add: sort_value_def cell_def example_utils_def row_without_n_def)
  have d: "sort_value example_utils (row_n (Str ''a'') 5) ''n'' \<noteq> Undefined"
    by (simp add: sort_value_def cell_def example_utils_def row_n_def)
  from compareColumnValues_undefined [OF h, of "row_n (Str ''a'') 5" Alphabetical]
    compareColumnValues_undefined [OF h, of row_without_n Alphabetical] h d
  show ?thesis by blast
qed

text \<open>
  Claim C6. When the primary comparison is 0, the result in either direction is
  \<open>a.span[0] - b.span[0]\<close> if both rows are highlights and 0 otherwise. When it is not 0,
  the result is the primary comparison in ascending direction and its negation in
  descending direction.
\<close>

theorem compareColumnValues_tie_break:
  "(primary_comparison u a b columnName sortMethod = Fin 0 \<longrightarrow>
      compareColumnValues u a b columnName sortMethod dir =
        (if isValueRowHighlight_row u a \<and> isValueRowHighlight_row u b
         then Fin (real_of_int (fst (row_span a) - fst (row_span b)))
         else Fin 0)) \<and>
   (primary_comparison u a b columnName sortMethod \<noteq> Fin 0 \<longrightarrow>
      compareColumnValues u a b columnName sortMethod asc =
        primary_comparison u a b columnName sortMethod \<and>
      compareColumnValues u a b columnName sortMethod desc =
        num_neg (primary_comparison u a b columnName sortMethod))"
proof -
  have z: "(num_neg x = Fin 0) = (x = Fin 0)" for x
    by (cases x) auto
  show ?thesis
    by (cases dir) (simp_all add: compareColumnValues_def z)
qed

theorem compareColumnValues_tie_break_witness:
  "primary_comparison example_utils (row_n (Num (Fin 5)) 10) (row_n (Num (Fin 5)) 3) ''n'' Numeric
     = Fin 0 \<and>
   compareColumnValues example_utils (row_n (Num (Fin 5)) 10) (row_n (Num (Fin 5)) 3) ''n'' Numeric asc
     = Fin 7 \<and>
   compareColumnValues example_utils (row_n (Num (Fin 5)) 10) (row_n (Num (Fin 5)) 3) ''n'' Numeric desc
     = Fin 7 \<and>
   primary_comparison example_utils (row_n (Num (Fin 5)) 10) (row_n (Num (Fin 2)) 3) ''n'' Numeric
     \<noteq> Fin 0 \<and>
   compareColumnValues example_utils (row_n (Num (Fin 5)) 10) (row_n (Num (Fin 2)) 3) ''n'' Numeric desc
     = Fin (- 3)"
proof -
  have p: "primary_comparison example_utils (row_n (Num (Fin 5)) 10) (row_n (Num (Fin 5)) 3) ''n''
      Numeric = Fin 0"
    by (simp add: primary_comparison_def sort_value_def cell_def example_utils_def row_n_def
        example_parseFloat_def)
  have q: "primary_comparison example_utils (row_n (Num (Fin 5)) 10) (row_n (Num (Fin 2)) 3) ''n''
      Numeric = Fin 3"
    by (simp add: primary_comparison_def sort_value_def cell_def example_utils_def row_n_def
        example_parseFloat_def)
  have s: "isValueRowHighlight_row example_utils r" for r
    by (simp add: example_utils_def)
  from compareColumnValues_tie_break
      [of example_utils "row_n (Num (Fin 5)) 10" "row_n (Num (Fin 5)) 3" "''n''" Numeric asc]
    compareColumnValues_tie_break
      [of example_utils "row_n (Num (Fin 5)) 10" "row_n (Num (Fin 5)) 3" "''n''" Numeric desc]
    compareColumnValues_tie_break
      [of example_utils "row_n (Num (Fin 5)) 10" "row_n (Num (Fin 2)) 3" "''n''" Numeric desc]
    p q s
  show ?thesis by (simp add: row_n_def)
qed

end
